theory Spec2Isabelle
  imports Main
begin

section \<open>Python strings\<close>

text \<open>
  A Python \<open>str\<close> is modelled as a \<open>string\<close>: a list of characters with code points
  below 256, one \<open>char\<close> per code point, so that \<open>length\<close> is Python's \<open>len\<close>.
  The methods \<open>lower\<close>, \<open>strip\<close> and the operator \<open>in\<close> are written out for that
  range as Python defines them.
\<close>

definition lower_char :: "char \<Rightarrow> char" where
  "lower_char c =
     (let n = (of_char c :: nat)
      in if (65 \<le> n \<and> n \<le> 90) \<or> (192 \<le> n \<and> n \<le> 214) \<or> (216 \<le> n \<and> n \<le> 222)
         then char_of (n + 32) else c)"

definition lower :: "string \<Rightarrow> string" where
  "lower s = map lower_char s"

definition is_space :: "char \<Rightarrow> bool" where
  "is_space c =
     (let n = (of_char c :: nat)
      in (9 \<le> n \<and> n \<le> 13) \<or> (28 \<le> n \<and> n \<le> 32) \<or> n = 133 \<or> n = 160)"

definition strip :: "string \<Rightarrow> string" where
  "strip s = rev (dropWhile is_space (rev (dropWhile is_space s)))"

primrec starts_with :: "string \<Rightarrow> string \<Rightarrow> bool" where
  "starts_with [] s = True"
| "starts_with (c # cs) s = (case s of [] \<Rightarrow> False | d # ds \<Rightarrow> c = d \<and> starts_with cs ds)"

text \<open>\<open>contains w s\<close> is Python's \<open>w in s\<close> on strings: \<open>w\<close> occurs in \<open>s\<close> as a
  contiguous run.\<close>

primrec contains :: "string \<Rightarrow> string \<Rightarrow> bool" where
  "contains w [] = (w = [])"
| "contains w (c # cs) = (starts_with w (c # cs) \<or> contains w cs)"

text \<open>\<open>any_in ws s\<close> is \<open>any(word in s for word in ws)\<close>.\<close>

definition any_in :: "string list \<Rightarrow> string \<Rightarrow> bool" where
  "any_in ws s = list_ex (\<lambda>w. contains w s) ws"

text \<open>The decimal rendering of an integer, as \<open>str\<close> and an f-string give it.\<close>

definition digit_char :: "int \<Rightarrow> char" where
  "digit_char d = char_of (48 + d)"

function str_int :: "int \<Rightarrow> string" where
  "str_int n =
     (if n < 0 then CHR ''-'' # str_int (- n)
      else if n < 10 then [digit_char n]
      else str_int (n div 10) @ [digit_char (n mod 10)])"
  by pat_completeness auto
termination
  by (relation "measure (\<lambda>n. if n < 0 then nat (- n) + 1 else nat n)") auto

declare str_int.simps [simp del]

section \<open>The support workflow: \<open>support_workflow.py\<close>\<close>

subsection \<open>State\<close>

record SupportWorkflowState =
  request_id :: string
  user_message :: string
  category :: "string option"
  priority :: "string option"
  response :: "string option"
  escalated :: bool
  ticket_created :: bool
  error_message :: "string option"
  step_count :: int

text \<open>The state both \<open>process_request\<close> and the demo build before the first stage.\<close>

definition initial_state :: "string \<Rightarrow> string \<Rightarrow> SupportWorkflowState" where
  "initial_state rid msg =
     \<lparr> request_id = rid, user_message = msg, category = None, priority = None,
       response = None, escalated = False, ticket_created = False,
       error_message = None, step_count = 0 \<rparr>"

subsection \<open>Stages\<close>

definition validate_request :: "SupportWorkflowState \<Rightarrow> SupportWorkflowState" where
  "validate_request state =
     (let message = user_message state
      in if message = [] \<or> length (strip message) = 0
         then state\<lparr>error_message := Some ''Message is empty''\<rparr>
         else if length message < 2
         then state\<lparr>error_message := Some ''Message too short''\<rparr>
         else if length message > 1000
         then state\<lparr>error_message := Some ''Message too long (max 1000 characters)''\<rparr>
         else state\<lparr>step_count := step_count state + 1\<rparr>)"

definition categorize_request :: "SupportWorkflowState \<Rightarrow> SupportWorkflowState" where
  "categorize_request state =
     (let message = lower (user_message state);
          state' =
            (if any_in [''password'', ''login'', ''access''] message
             then state\<lparr>category := Some ''authentication'', priority := Some ''medium''\<rparr>
             else if any_in [''billing'', ''payment'', ''invoice''] message
             then state\<lparr>category := Some ''billing'', priority := Some ''high''\<rparr>
             else if any_in [''bug'', ''error'', ''crash'', ''broken''] message
             then state\<lparr>category := Some ''technical'', priority := Some ''high''\<rparr>
             else if any_in [''angry'', ''frustrated'', ''terrible''] message
             then state\<lparr>category := Some ''complaint'', priority := Some ''urgent''\<rparr>
             else state\<lparr>category := Some ''general'', priority := Some ''low''\<rparr>)
      in state'\<lparr>step_count := step_count state' + 1\<rparr>)"

text \<open>The template table of \<open>generate_response\<close>, with its default for a key that is
  not in the table.\<close>

definition responses :: "string \<Rightarrow> string" where
  "responses cat =
     (if cat = ''authentication''
      then ''To reset your password, please click 'Forgot Password' on the login page and follow the instructions.''
      else if cat = ''billing''
      then ''For billing inquiries, please check your account settings or contact our billing team at billing@company.com''
      else if cat = ''technical''
      then ''I've logged this technical issue for our engineering team. You should receive an update within 24 hours.''
      else if cat = ''complaint''
      then ''I sincerely apologize for your experience. Let me escalate this to our customer success team immediately.''
      else if cat = ''general''
      then ''Thank you for contacting us. I'll make sure you get the help you need.''
      else ''Thank you for your message. We'll get back to you soon.'')"

text \<open>\<open>state.get("category") or "general"\<close>: a missing or empty category reads as
  \<open>general\<close>.\<close>

definition category_or_general :: "SupportWorkflowState \<Rightarrow> string" where
  "category_or_general state =
     (case category state of None \<Rightarrow> ''general'' | Some c \<Rightarrow> if c = [] then ''general'' else c)"

definition generate_response :: "SupportWorkflowState \<Rightarrow> SupportWorkflowState" where
  "generate_response state =
     state\<lparr>response := Some (responses (category_or_general state)),
           step_count := step_count state + 1\<rparr>"

definition escalation_needed :: "SupportWorkflowState \<Rightarrow> bool" where
  "escalation_needed state =
     (priority state \<in> set [Some ''urgent'', Some ''high''] \<or>
      category state \<in> set [Some ''complaint'', Some ''technical''] \<or>
      any_in [''manager'', ''supervisor'', ''human''] (lower (user_message state)))"

definition check_escalation_needed :: "SupportWorkflowState \<Rightarrow> SupportWorkflowState" where
  "check_escalation_needed state =
     state\<lparr>escalated := escalation_needed state, step_count := step_count state + 1\<rparr>"

text \<open>
  \<open>create_ticket\<close> calls Python's built-in \<open>hash\<close> on the message. For strings that
  function is keyed by a seed drawn when the interpreter starts, so it is a parameter
  \<open>h\<close> of the model: any function from strings to integers. Python's \<open>%\<close> with a
  positive modulus returns a value from 0 to 9999, as \<open>mod\<close> on \<open>int\<close> does.
\<close>

definition ticket_id :: "(string \<Rightarrow> int) \<Rightarrow> SupportWorkflowState \<Rightarrow> string" where
  "ticket_id h state = ''TICKET-'' @ str_int (h (user_message state) mod 10000)"

definition ticket_notice :: "string \<Rightarrow> string" where
  "ticket_notice tid =
     [CHR 0x0A, CHR 0x0A] @ ''Support ticket '' @ tid @
     '' has been created. A human agent will contact you within 2 hours.''"

definition create_ticket :: "(string \<Rightarrow> int) \<Rightarrow> SupportWorkflowState \<Rightarrow> SupportWorkflowState" where
  "create_ticket h state =
     (let current_response = (case response state of None \<Rightarrow> [] | Some r \<Rightarrow> r)
      in state\<lparr>ticket_created := True,
               response := Some (current_response @ ticket_notice (ticket_id h state)),
               step_count := step_count state + 1\<rparr>)"

text \<open>The f-string of \<open>handle_error\<close> renders a missing error message as \<open>None\<close>.\<close>

definition error_text :: "SupportWorkflowState \<Rightarrow> string" where
  "error_text state = (case error_message state of None \<Rightarrow> ''None'' | Some e \<Rightarrow> e)"

definition apology :: "string \<Rightarrow> string" where
  "apology e =
     ''I'm so'' @ ''rry, there was an issue processing your request: '' @ e @
     ''. Please try again or contact support directly.''"

definition handle_error :: "SupportWorkflowState \<Rightarrow> SupportWorkflowState" where
  "handle_error state =
     state\<lparr>response := Some (apology (error_text state)),
           escalated := True,
           step_count := step_count state + 1\<rparr>"

definition send_response :: "SupportWorkflowState \<Rightarrow> SupportWorkflowState" where
  "send_response state = state\<lparr>step_count := step_count state + 1\<rparr>"

subsection \<open>Routing predicates\<close>

text \<open>\<open>state.get("error_message")\<close> is truthy when the message is set and not empty.\<close>

definition has_error :: "SupportWorkflowState \<Rightarrow> bool" where
  "has_error state = (case error_message state of None \<Rightarrow> False | Some e \<Rightarrow> e \<noteq> [])"

definition should_escalate :: "SupportWorkflowState \<Rightarrow> bool" where
  "should_escalate state = escalated state"

subsection \<open>\<open>MockSupportWorkflow.process_request\<close>\<close>

text \<open>
  The stages raise nothing on a state whose fields have their declared types, so the
  \<open>except\<close> branch of \<open>process_request\<close> is never taken and is not a branch of the model.
\<close>

definition process_request :: "(string \<Rightarrow> int) \<Rightarrow> string \<Rightarrow> string \<Rightarrow> SupportWorkflowState" where
  "process_request h rid msg =
     (let state = validate_request (initial_state rid msg)
      in if has_error state then handle_error state
         else let state = categorize_request state;
                  state = generate_response state;
                  state = check_escalation_needed state;
                  state = (if escalated state then create_ticket h state else state)
              in send_response state)"

subsection \<open>The graph of \<open>create_support_workflow\<close>\<close>

datatype node =
  Validate | Categorize | GenerateResponse | CheckEscalation | CreateTicket | SendResponse
  | HandleError

text \<open>\<open>add_node\<close>: the stage each node runs.\<close>

fun stage :: "(string \<Rightarrow> int) \<Rightarrow> node \<Rightarrow> SupportWorkflowState \<Rightarrow> SupportWorkflowState" where
  "stage h Validate = validate_request"
| "stage h Categorize = categorize_request"
| "stage h GenerateResponse = generate_response"
| "stage h CheckEscalation = check_escalation_needed"
| "stage h CreateTicket = create_ticket h"
| "stage h SendResponse = send_response"
| "stage h HandleError = handle_error"

text \<open>\<open>add_edge\<close> and \<open>add_conditional_edges\<close>: the node that follows, read on the state
  the stage returned; \<open>None\<close> is \<open>END\<close>.\<close>

fun next_node :: "node \<Rightarrow> SupportWorkflowState \<Rightarrow> node option" where
  "next_node Validate state = (if has_error state then Some HandleError else Some Categorize)"
| "next_node Categorize state = Some GenerateResponse"
| "next_node GenerateResponse state = Some CheckEscalation"
| "next_node CheckEscalation state =
     (if should_escalate state then Some CreateTicket else Some SendResponse)"
| "next_node CreateTicket state = Some SendResponse"
| "next_node SendResponse state = None"
| "next_node HandleError state = None"

fun rank :: "node \<Rightarrow> nat" where
  "rank Validate = 6"
| "rank Categorize = 5"
| "rank GenerateResponse = 4"
| "rank CheckEscalation = 3"
| "rank CreateTicket = 2"
| "rank SendResponse = 1"
| "rank HandleError = 1"

text \<open>
  Walking the graph from a node: the stage runs, then the edge out of the node picks the
  next one. The result lists the state after each stage that ran, in order.
\<close>

function run_from :: "(string \<Rightarrow> int) \<Rightarrow> node \<Rightarrow> SupportWorkflowState \<Rightarrow> SupportWorkflowState list" where
  "run_from h n state =
     (let state' = stage h n state
      in case next_node n state' of
           None \<Rightarrow> [state']
         | Some n' \<Rightarrow> state' # run_from h n' state')"
  by pat_completeness auto
termination
  by (relation "measure (\<lambda>(h, n, state). rank n)")
     (auto elim!: next_node.elims split: if_splits)

declare run_from.simps [simp del]

text \<open>Every state of a run: the initial state, then the state after each stage.\<close>

definition trace :: "(string \<Rightarrow> int) \<Rightarrow> string \<Rightarrow> string \<Rightarrow> SupportWorkflowState list" where
  "trace h rid msg = initial_state rid msg # run_from h Validate (initial_state rid msg)"

text \<open>\<open>workflow.invoke\<close> returns the state the walk ends with.\<close>

definition invoke :: "(string \<Rightarrow> int) \<Rightarrow> SupportWorkflowState \<Rightarrow> SupportWorkflowState" where
  "invoke h state = last (run_from h Validate state)"

text \<open>\<open>once_true bs\<close>: in the sequence of flag values \<open>bs\<close>, a value that is true is
  followed by true values only.\<close>

primrec once_true :: "bool list \<Rightarrow> bool" where
  "once_true [] = True"
| "once_true (b # bs) = ((b \<longrightarrow> list_all (\<lambda>x. x) bs) \<and> once_true bs)"

subsection \<open>A sample string hash\<close>

text \<open>
  An instance of the parameter \<open>h\<close> for evaluating runs on concrete inputs: a polynomial
  hash started from a seed, a function of the seed and of the string as the interpreter's
  keyed hash is.
\<close>

definition seeded_hash :: "int \<Rightarrow> string \<Rightarrow> int" where
  "seeded_hash seed s = foldl (\<lambda>acc c. acc * 31 + of_char c) seed s"

section \<open>The generation collaborator\<close>

text \<open>
  Both Gemini workflows post a prompt to the remote model and read
  \<open>result["candidates"][0]["content"]["parts"]\<close> from the reply. What that exchange
  yields is outside the program, so it is a parameter \<open>llm\<close> from the prompt to an
  outcome: either some step of the exchange raised an \<open>Exception\<close> (transport failure,
  timeout, a status that \<open>raise_for_status\<close> rejects, a body that is not JSON, a missing
  or empty candidate list), carried with its message, or the list of parts was read, each
  part with its \<open>text\<close> if it has one.
\<close>

datatype llm_exchange = Raised string | Parts "string option list"

text \<open>How an f-string renders an optional string.\<close>

definition str_opt :: "string option \<Rightarrow> string" where
  "str_opt x = (case x of None \<Rightarrow> ''None'' | Some s \<Rightarrow> s)"

text \<open>\<open>parts[0].get("text", "").strip()\<close>\<close>

definition part_text :: "string option \<Rightarrow> string" where
  "part_text p = strip (case p of None \<Rightarrow> [] | Some t \<Rightarrow> t)"

section \<open>The Gemini workflow: \<open>hf_workflow.py\<close>\<close>

record WorkflowState_hf =
  message_hf :: string
  category_hf :: "string option"
  priority_hf :: "string option"
  response_hf :: "string option"
  escalated_hf :: bool

definition new_WorkflowState_hf :: "string \<Rightarrow> WorkflowState_hf" where
  "new_WorkflowState_hf message =
     \<lparr> message_hf = message, category_hf = None, priority_hf = None, response_hf = None,
       escalated_hf = False \<rparr>"

definition categorize :: "WorkflowState_hf \<Rightarrow> WorkflowState_hf" where
  "categorize state =
     (let message_lower = lower (message_hf state)
      in if any_in [''password'', ''login'', ''auth''] message_lower
         then state\<lparr>category_hf := Some ''authentication''\<rparr>
         else if any_in [''bill'', ''payment'', ''charge''] message_lower
         then state\<lparr>category_hf := Some ''billing''\<rparr>
         else if any_in [''bug'', ''error'', ''broken''] message_lower
         then state\<lparr>category_hf := Some ''technical''\<rparr>
         else state\<lparr>category_hf := Some ''general''\<rparr>)"

definition set_priority :: "WorkflowState_hf \<Rightarrow> WorkflowState_hf" where
  "set_priority state =
     (let message_lower = lower (message_hf state)
      in if any_in [''urgent'', ''asap'', ''critical''] message_lower
         then state\<lparr>priority_hf := Some ''high''\<rparr>
         else if category_hf state \<in> set [Some ''billing'', Some ''technical'']
         then state\<lparr>priority_hf := Some ''medium''\<rparr>
         else state\<lparr>priority_hf := Some ''low''\<rparr>)"

definition llm_prompt_hf :: "WorkflowState_hf \<Rightarrow> string" where
  "llm_prompt_hf state =
     ''You are a helpful support agent. Customer message: '' @ [CHR 0x27] @ message_hf state @
     [CHR 0x27] @ '' (Category: '' @ str_opt (category_hf state) @ '', Priority: '' @
     str_opt (priority_hf state) @
     ''). Provide a brief, helpful response (1-2 sentences).''"

text \<open>\<open>_get_llm_response\<close>: \<open>Inl\<close> is the exception it raises, with its message.\<close>

definition get_llm_response :: "(string \<Rightarrow> llm_exchange) \<Rightarrow> WorkflowState_hf \<Rightarrow> string + string" where
  "get_llm_response llm state =
     (case llm (llm_prompt_hf state) of
        Raised e \<Rightarrow> Inl e
      | Parts parts \<Rightarrow>
          (case parts of
             [] \<Rightarrow> Inl ''Invalid response''
           | p # _ \<Rightarrow> Inr (part_text p)))"

definition responses_hf :: "string \<Rightarrow> string" where
  "responses_hf cat =
     (if cat = ''authentication''
      then ''To reset your password, click 'Forgot Password' on the login page.''
      else if cat = ''billing''
      then ''For billing questions, contact billing@company.com or check your account settings.''
      else if cat = ''technical''
      then ''Please describe the issue in detail and we'll investigate. You can also check our troubleshooting guide.''
      else if cat = ''general''
      then ''Thanks for contacting us. How can we help you today?''
      else ''We're here to help!'')"

definition get_fallback_response :: "WorkflowState_hf \<Rightarrow> string" where
  "get_fallback_response state =
     responses_hf (case category_hf state of None \<Rightarrow> [] | Some c \<Rightarrow> c)"

text \<open>\<open>GeminiWorkflow.generate_response\<close>: the \<open>try\<close> returns with the model's text;
  \<open>except Exception\<close> falls through to the fallback, as a workflow built with
  \<open>use_llm=False\<close> does at once.\<close>

definition generate_response_hf :: "bool \<Rightarrow> (string \<Rightarrow> llm_exchange) \<Rightarrow> WorkflowState_hf \<Rightarrow> WorkflowState_hf" where
  "generate_response_hf use_llm llm state =
     (let fallback = state\<lparr>response_hf := Some (get_fallback_response state)\<rparr>
      in if use_llm
         then case get_llm_response llm state of
                Inr text \<Rightarrow> state\<lparr>response_hf := Some text\<rparr>
              | Inl e \<Rightarrow> fallback
         else fallback)"

definition escalation_note :: string where
  "escalation_note =
     [CHR 0x0A, CHR 0x0A] @
     ''I'm escalating this to a senior agent who will contact you shortly.''"

definition check_escalation :: "WorkflowState_hf \<Rightarrow> WorkflowState_hf" where
  "check_escalation state =
     (if any_in [''angry'', ''frustrated'', ''manager''] (lower (message_hf state))
      then let state = state\<lparr>escalated_hf := True\<rparr>
           in (case response_hf state of
                 None \<Rightarrow> state
               | Some r \<Rightarrow> if r = [] then state
                          else state\<lparr>response_hf := Some (r @ escalation_note)\<rparr>)
      else state)"

definition run_hf :: "bool \<Rightarrow> (string \<Rightarrow> llm_exchange) \<Rightarrow> string \<Rightarrow> WorkflowState_hf" where
  "run_hf use_llm llm message =
     check_escalation
       (generate_response_hf use_llm llm
          (set_priority (categorize (new_WorkflowState_hf message))))"

section \<open>The workflow agent: \<open>simple_workflow.py\<close>\<close>

text \<open>Its \<open>WorkflowState\<close> holds one dictionary, \<open>data\<close>, from strings to strings.\<close>

type_synonym WorkflowState_simple = "string \<rightharpoonup> string"

definition get_or :: "WorkflowState_simple \<Rightarrow> string \<Rightarrow> string \<Rightarrow> string" where
  "get_or data k d = (case data k of None \<Rightarrow> d | Some v \<Rightarrow> v)"

definition validate_input :: "WorkflowState_simple \<Rightarrow> WorkflowState_simple" where
  "validate_input data =
     (if length (get_or data ''message'' []) < 5
      then data(''error'' \<mapsto> ''Message too short'') else data)"

definition categorize_request_simple :: "WorkflowState_simple \<Rightarrow> WorkflowState_simple" where
  "categorize_request_simple data =
     (let message = lower (get_or data ''message'' [])
      in if contains ''password'' message then data(''category'' \<mapsto> ''auth'')
         else if contains ''billing'' message then data(''category'' \<mapsto> ''billing'')
         else data(''category'' \<mapsto> ''general''))"

definition llm_prompt_simple :: "WorkflowState_simple \<Rightarrow> string" where
  "llm_prompt_simple data =
     ''Customer message: '' @ [CHR 0x27] @ get_or data ''message'' [] @ [CHR 0x27] @
     '' (Category: '' @ get_or data ''category'' [] @
     ''). Provide a brief, helpful support response (1-2 sentences).''"

definition responses_simple :: "string option \<Rightarrow> string" where
  "responses_simple cat =
     (if cat = Some ''auth'' then ''Reset your password on the login page''
      else if cat = Some ''billing'' then ''Contact billing@company.com''
      else if cat = Some ''general'' then ''Thanks for contacting us''
      else ''We'll help you'')"

text \<open>
  \<open>WorkflowAgent.generate_response\<close>: inside the \<open>try\<close>, a non-empty list of parts
  stores the model's text and returns; an empty list leaves the \<open>try\<close> without
  returning, and an exception is caught. Both of those reach the template lookup.
\<close>

definition llm_text_simple :: "bool \<Rightarrow> (string \<Rightarrow> llm_exchange) \<Rightarrow> WorkflowState_simple \<Rightarrow> string option" where
  "llm_text_simple use_llm llm data =
     (if use_llm
      then case llm (llm_prompt_simple data) of
             Raised e \<Rightarrow> None
           | Parts parts \<Rightarrow> (case parts of [] \<Rightarrow> None | p # _ \<Rightarrow> Some (part_text p))
      else None)"

definition generate_response_simple :: "bool \<Rightarrow> (string \<Rightarrow> llm_exchange) \<Rightarrow> WorkflowState_simple \<Rightarrow> WorkflowState_simple" where
  "generate_response_simple use_llm llm data =
     (case llm_text_simple use_llm llm data of
        Some text \<Rightarrow> data(''response'' \<mapsto> text)
      | None \<Rightarrow> data(''response'' \<mapsto> responses_simple (data ''category'')))"

definition run_workflow :: "bool \<Rightarrow> (string \<Rightarrow> llm_exchange) \<Rightarrow> string \<Rightarrow> string" where
  "run_workflow use_llm llm message =
     (let data = Map.empty(''message'' \<mapsto> message);
          data = validate_input data;
          data = categorize_request_simple data;
          data = generate_response_simple use_llm llm data
      in get_or data ''response'' ''Error processing request'')"

text \<open>A collaborator that is down: every exchange raises.\<close>

definition llm_down :: "string \<Rightarrow> llm_exchange" where
  "llm_down prompt = Raised ''Connection refused''"

text \<open>A collaborator that answers with a candidate whose list of parts is empty.\<close>

definition llm_no_parts :: "string \<Rightarrow> llm_exchange" where
  "llm_no_parts prompt = Parts []"

section \<open>The priority table of the specification\<close>

text \<open>
  The mapping from category to priority as the specification words it: complaint to
  urgent, technical and billing to high, authentication to medium, general to low.
  \<open>categorize_request\<close> has no such table; it assigns the priority in each branch.
\<close>

definition priority_table :: "string \<Rightarrow> string option" where
  "priority_table c =
     (if c = ''complaint'' then Some ''urgent''
      else if c = ''technical'' \<or> c = ''billing'' then Some ''high''
      else if c = ''authentication'' then Some ''medium''
      else if c = ''general'' then Some ''low''
      else None)"

section \<open>Auxiliary facts\<close>

subsection \<open>The states of a run\<close>

lemma run_from_SendResponse: "run_from h SendResponse s = [send_response s]"
  by (simp add: run_from.simps)

lemma run_from_HandleError: "run_from h HandleError s = [handle_error s]"
  by (simp add: run_from.simps)

lemma run_from_CreateTicket:
  "run_from h CreateTicket s = [create_ticket h s, send_response (create_ticket h s)]"
  by (simp add: run_from.simps[of h CreateTicket] run_from_SendResponse Let_def)

lemma run_from_CheckEscalation:
  "run_from h CheckEscalation s =
     (let e = check_escalation_needed s
      in if escalated e then e # run_from h CreateTicket e else [e, send_response e])"
  by (simp add: run_from.simps[of h CheckEscalation] run_from_SendResponse Let_def should_escalate_def)

lemma run_from_Validate:
  "run_from h Validate s =
     (let v = validate_request s
      in if has_error v then [v, handle_error v]
         else let c = categorize_request v; g = generate_response c
              in v # c # g # run_from h CheckEscalation g)"
  by (simp add: run_from.simps[of h Validate] run_from.simps[of h Categorize]
      run_from.simps[of h GenerateResponse] run_from_HandleError Let_def)

lemma invoke_initial: "invoke h (initial_state rid msg) = process_request h rid msg"
  by (simp add: invoke_def process_request_def run_from_Validate run_from_CheckEscalation
      run_from_CreateTicket Let_def)

lemma trace_shape:
  "trace h rid msg =
     (let i = initial_state rid msg; v = validate_request i
      in if has_error v then [i, v, handle_error v]
         else let c = categorize_request v; g = generate_response c;
                  e = check_escalation_needed g
              in if escalated e
                 then [i, v, c, g, e, create_ticket h e, send_response (create_ticket h e)]
                 else [i, v, c, g, e, send_response e])"
  by (simp add: trace_def run_from_Validate run_from_CheckEscalation run_from_CreateTicket Let_def)

lemma process_request_last: "process_request h rid msg = last (trace h rid msg)"
  by (simp add: trace_shape process_request_def Let_def)

lemma validate_request_flags [simp]:
  "escalated (validate_request s) = escalated s"
  "ticket_created (validate_request s) = ticket_created s"
  "category (validate_request s) = category s"
  "priority (validate_request s) = priority s"
  "response (validate_request s) = response s"
  "user_message (validate_request s) = user_message s"
  "request_id (validate_request s) = request_id s"
  by (simp_all add: validate_request_def Let_def)

lemma categorize_request_flags [simp]:
  "escalated (categorize_request s) = escalated s"
  "ticket_created (categorize_request s) = ticket_created s"
  "response (categorize_request s) = response s"
  "error_message (categorize_request s) = error_message s"
  "user_message (categorize_request s) = user_message s"
  "request_id (categorize_request s) = request_id s"
  "step_count (categorize_request s) = step_count s + 1"
  by (simp_all add: categorize_request_def Let_def)

lemma generate_response_flags [simp]:
  "escalated (generate_response s) = escalated s"
  "ticket_created (generate_response s) = ticket_created s"
  "category (generate_response s) = category s"
  "priority (generate_response s) = priority s"
  "error_message (generate_response s) = error_message s"
  "user_message (generate_response s) = user_message s"
  "request_id (generate_response s) = request_id s"
  "step_count (generate_response s) = step_count s + 1"
  "response (generate_response s) = Some (responses (category_or_general s))"
  by (simp_all add: generate_response_def)

lemma check_escalation_needed_flags [simp]:
  "escalated (check_escalation_needed s) = escalation_needed s"
  "ticket_created (check_escalation_needed s) = ticket_created s"
  "category (check_escalation_needed s) = category s"
  "priority (check_escalation_needed s) = priority s"
  "response (check_escalation_needed s) = response s"
  "error_message (check_escalation_needed s) = error_message s"
  "user_message (check_escalation_needed s) = user_message s"
  "request_id (check_escalation_needed s) = request_id s"
  "step_count (check_escalation_needed s) = step_count s + 1"
  by (simp_all add: check_escalation_needed_def)

lemma create_ticket_flags [simp]:
  "escalated (create_ticket h s) = escalated s"
  "ticket_created (create_ticket h s) = True"
  "category (create_ticket h s) = category s"
  "priority (create_ticket h s) = priority s"
  "error_message (create_ticket h s) = error_message s"
  "user_message (create_ticket h s) = user_message s"
  "request_id (create_ticket h s) = request_id s"
  "step_count (create_ticket h s) = step_count s + 1"
  by (simp_all add: create_ticket_def Let_def)

lemma handle_error_flags [simp]:
  "escalated (handle_error s) = True"
  "ticket_created (handle_error s) = ticket_created s"
  "category (handle_error s) = category s"
  "priority (handle_error s) = priority s"
  "error_message (handle_error s) = error_message s"
  "user_message (handle_error s) = user_message s"
  "request_id (handle_error s) = request_id s"
  "step_count (handle_error s) = step_count s + 1"
  "response (handle_error s) = Some (apology (error_text s))"
  by (simp_all add: handle_error_def)

lemma send_response_flags [simp]:
  "escalated (send_response s) = escalated s"
  "ticket_created (send_response s) = ticket_created s"
  "category (send_response s) = category s"
  "priority (send_response s) = priority s"
  "response (send_response s) = response s"
  "error_message (send_response s) = error_message s"
  "user_message (send_response s) = user_message s"
  "request_id (send_response s) = request_id s"
  "step_count (send_response s) = step_count s + 1"
  by (simp_all add: send_response_def)

lemma initial_state_fields [simp]:
  "request_id (initial_state rid msg) = rid"
  "user_message (initial_state rid msg) = msg"
  "category (initial_state rid msg) = None"
  "priority (initial_state rid msg) = None"
  "response (initial_state rid msg) = None"
  "escalated (initial_state rid msg) = False"
  "ticket_created (initial_state rid msg) = False"
  "error_message (initial_state rid msg) = None"
  "step_count (initial_state rid msg) = 0"
  by (simp_all add: initial_state_def)

lemma strip_eq_Nil_iff: "strip s = [] \<longleftrightarrow> (\<forall>c \<in> set s. is_space c)"
proof -
  have "strip s = [] \<longleftrightarrow> (\<forall>c \<in> set (dropWhile is_space s). is_space c)"
    by (simp add: strip_def dropWhile_eq_Nil_conv)
  also have "\<dots> \<longleftrightarrow> dropWhile is_space s = []"
  proof
    assume a: "\<forall>c \<in> set (dropWhile is_space s). is_space c"
    show "dropWhile is_space s = []"
    proof (rule ccontr)
      assume "dropWhile is_space s \<noteq> []"
      then have "\<not> is_space (hd (dropWhile is_space s))" "hd (dropWhile is_space s) \<in> set (dropWhile is_space s)"
        by (simp_all add: hd_dropWhile)
      with a show False by blast
    qed
  qed (auto dest: set_dropWhileD)
  finally show ?thesis by (simp add: dropWhile_eq_Nil_conv)
qed

lemma starts_with_iff: "starts_with w s \<longleftrightarrow> (\<exists>ss. s = w @ ss)"
  by (induction w arbitrary: s) (auto split: list.splits)

lemma contains_iff: "contains w s \<longleftrightarrow> (\<exists>ps ss. s = ps @ w @ ss)"
proof (induction s)
  case Nil
  then show ?case by auto
next
  case (Cons c cs)
  show ?case
  proof
    assume "contains w (c # cs)"
    then consider "starts_with w (c # cs)" | "contains w cs" by auto
    then show "\<exists>ps ss. c # cs = ps @ w @ ss"
    proof cases
      case 1
      then obtain ss where "c # cs = w @ ss" using starts_with_iff by blast
      then have "c # cs = [] @ w @ ss" by simp
      then show ?thesis by blast
    next
      case 2
      with Cons obtain ps ss where "cs = ps @ w @ ss" by blast
      then have "c # cs = (c # ps) @ w @ ss" by simp
      then show ?thesis by blast
    qed
  next
    assume "\<exists>ps ss. c # cs = ps @ w @ ss"
    then obtain ps ss where e: "c # cs = ps @ w @ ss" by blast
    show "contains w (c # cs)"
    proof (cases ps)
      case Nil
      with e have "starts_with w (c # cs)" using starts_with_iff by auto
      then show ?thesis by simp
    next
      case (Cons p ps')
      with e have "cs = ps' @ w @ ss" by simp
      with Cons.IH show ?thesis by auto
    qed
  qed
qed

lemma lower_append: "lower (a @ b) = lower a @ lower b"
  by (simp add: lower_def)

subsection \<open>Validation and categorisation\<close>

lemma stage_step_count:
  "n \<noteq> Validate \<Longrightarrow> step_count (stage h n s) = step_count s + 1"
  by (cases n) simp_all

lemma validate_request_step_count:
  "error_message s = None \<Longrightarrow>
   step_count (validate_request s) =
     (if has_error (validate_request s) then step_count s else step_count s + 1)"
  by (simp add: validate_request_def has_error_def Let_def)

lemma list_all_is_space_iff: "list_all is_space s \<longleftrightarrow> length (strip s) = 0"
  by (simp add: strip_eq_Nil_iff list_all_iff)

lemma validate_request_rejected:
  "user_message s = [] \<or> list_all is_space (user_message s) \<or> length (user_message s) < 2
     \<or> length (user_message s) > 1000 \<Longrightarrow>
   has_error (validate_request s) \<and> step_count (validate_request s) = step_count s \<and>
   validate_request s = s\<lparr>error_message := error_message (validate_request s)\<rparr>"
  by (auto simp add: validate_request_def has_error_def Let_def list_all_is_space_iff)

lemma validate_request_accepted:
  "\<not> (user_message s = [] \<or> list_all is_space (user_message s) \<or> length (user_message s) < 2
     \<or> length (user_message s) > 1000) \<Longrightarrow>
   validate_request s = s\<lparr>step_count := step_count s + 1\<rparr>"
  by (auto simp add: validate_request_def Let_def list_all_is_space_iff)

lemma validate_request_too_short:
  "length (user_message s) = 1 \<Longrightarrow> \<not> is_space (hd (user_message s)) \<Longrightarrow>
   validate_request s = s\<lparr>error_message := Some ''Message too short''\<rparr>"
proof -
  assume a: "length (user_message s) = 1" and b: "\<not> is_space (hd (user_message s))"
  from a obtain c where c: "user_message s = [c]" by (cases "user_message s") auto
  with b have "strip (user_message s) = [c]" by (simp add: strip_def)
  with c show ?thesis by (simp add: validate_request_def Let_def)
qed

lemma error_path:
  "has_error (validate_request (initial_state rid msg)) \<Longrightarrow>
   process_request h rid msg = handle_error (validate_request (initial_state rid msg))"
  by (simp add: process_request_def Let_def)

lemma Hi_facts:
  "strip ''Hi'' = ''Hi''" "lower ''Hi'' = ''hi''"
  "\<not> any_in [''password'', ''login'', ''access''] ''hi''"
  "\<not> any_in [''billing'', ''payment'', ''invoice''] ''hi''"
  "\<not> any_in [''bug'', ''error'', ''crash'', ''broken''] ''hi''"
  "\<not> any_in [''angry'', ''frustrated'', ''terrible''] ''hi''"
  "\<not> any_in [''manager'', ''supervisor'', ''human''] ''hi''"
  by code_simp+

lemma process_request_Hi:
  "process_request h rid ''Hi'' =
     \<lparr> request_id = rid, user_message = ''Hi'', category = Some ''general'',
       priority = Some ''low'', response = Some (responses ''general''), escalated = False,
       ticket_created = False, error_message = None, step_count = 5 \<rparr>"
  by (simp add: process_request_def validate_request_def categorize_request_def
      generate_response_def check_escalation_needed_def escalation_needed_def
      send_response_def initial_state_def has_error_def category_or_general_def Hi_facts Let_def)

lemma categorize_request_table:
  "case category (categorize_request s) of
      None \<Rightarrow> False
    | Some c \<Rightarrow>
        c \<in> set [''authentication'', ''billing'', ''technical'', ''complaint'', ''general''] \<and>
        priority (categorize_request s) = priority_table c"
  by (simp add: categorize_request_def priority_table_def Let_def)

lemma normal_path_labels:
  "\<not> has_error (validate_request (initial_state rid msg)) \<Longrightarrow>
   category (process_request h rid msg) =
     category (categorize_request (validate_request (initial_state rid msg))) \<and>
   priority (process_request h rid msg) =
     priority (categorize_request (validate_request (initial_state rid msg)))"
  by (simp add: process_request_def Let_def)

subsection \<open>What a run depends on\<close>

lemma request_id_update_stages [simp]:
  "validate_request (s\<lparr>request_id := r\<rparr>) = (validate_request s)\<lparr>request_id := r\<rparr>"
  "categorize_request (s\<lparr>request_id := r\<rparr>) = (categorize_request s)\<lparr>request_id := r\<rparr>"
  "generate_response (s\<lparr>request_id := r\<rparr>) = (generate_response s)\<lparr>request_id := r\<rparr>"
  "check_escalation_needed (s\<lparr>request_id := r\<rparr>) = (check_escalation_needed s)\<lparr>request_id := r\<rparr>"
  "create_ticket h (s\<lparr>request_id := r\<rparr>) = (create_ticket h s)\<lparr>request_id := r\<rparr>"
  "handle_error (s\<lparr>request_id := r\<rparr>) = (handle_error s)\<lparr>request_id := r\<rparr>"
  "send_response (s\<lparr>request_id := r\<rparr>) = (send_response s)\<lparr>request_id := r\<rparr>"
  "has_error (s\<lparr>request_id := r\<rparr>) = has_error s"
  "escalation_needed (s\<lparr>request_id := r\<rparr>) = escalation_needed s"
  by (simp_all add: validate_request_def categorize_request_def generate_response_def
      check_escalation_needed_def escalation_needed_def create_ticket_def ticket_id_def
      handle_error_def error_text_def send_response_def has_error_def category_or_general_def
      Let_def)

lemma initial_state_request_id:
  "initial_state rid msg = (initial_state rid' msg)\<lparr>request_id := rid\<rparr>"
  by (simp add: initial_state_def)

lemma process_request_request_id:
  "process_request h rid msg = (process_request h rid' msg)\<lparr>request_id := rid\<rparr>"
proof -
  have "process_request h rid msg =
      (let state = (validate_request (initial_state rid' msg))\<lparr>request_id := rid\<rparr>
      in if has_error state then handle_error state
         else let state = categorize_request state;
                  state = generate_response state;
                  state = check_escalation_needed state;
                  state = (if escalated state then create_ticket h state else state)
              in send_response state)"
    unfolding process_request_def
    by (subst initial_state_request_id [of rid msg rid']) simp
  then show ?thesis
    by (simp add: process_request_def Let_def)
qed

lemma create_ticket_response:
  "response (create_ticket h s) =
     Some ((case response s of None \<Rightarrow> [] | Some r \<Rightarrow> r) @
       ticket_notice (''TICKET-'' @ str_int (h (user_message s) mod 10000)))"
  by (simp add: create_ticket_def ticket_id_def Let_def)

lemma create_ticket_hash:
  "h1 (user_message s) mod 10000 = h2 (user_message s) mod 10000 \<Longrightarrow>
   create_ticket h1 s = create_ticket h2 s"
  by (simp add: create_ticket_def ticket_id_def Let_def)

lemma process_request_cases:
  "process_request h rid msg =
     (if has_error (validate_request (initial_state rid msg))
      then handle_error (validate_request (initial_state rid msg))
      else if escalation_needed (generate_response (categorize_request (validate_request (initial_state rid msg))))
      then send_response (create_ticket h (check_escalation_needed (generate_response
             (categorize_request (validate_request (initial_state rid msg))))))
      else send_response (check_escalation_needed (generate_response
             (categorize_request (validate_request (initial_state rid msg))))))"
  by (simp add: process_request_def Let_def)

lemma ticket_created_iff:
  "ticket_created (process_request h rid msg) \<longleftrightarrow>
     \<not> has_error (validate_request (initial_state rid msg)) \<and>
     escalation_needed (generate_response (categorize_request (validate_request (initial_state rid msg))))"
  by (simp add: process_request_cases)

lemma process_request_ticket_response:
  "ticket_created (process_request h rid msg) \<Longrightarrow>
   response (process_request h rid msg) =
     Some (responses (category_or_general (process_request h rid msg)) @
       ticket_notice (''TICKET-'' @ str_int (h msg mod 10000)))"
proof -
  assume "ticket_created (process_request h rid msg)"
  then have a: "\<not> has_error (validate_request (initial_state rid msg))"
    and b: "escalation_needed (generate_response (categorize_request (validate_request (initial_state rid msg))))"
    using ticket_created_iff [of h rid msg] by blast+
  have c: "category (categorize_request s) \<noteq> None \<and> category (categorize_request s) \<noteq> Some []" for s
    by (simp add: categorize_request_def Let_def)
  show ?thesis
    using c [of "validate_request (initial_state rid msg)"]
    by (auto simp add: process_request_cases a b create_ticket_response category_or_general_def)
qed

lemma process_request_hash:
  "h1 msg mod 10000 = h2 msg mod 10000 \<or> \<not> ticket_created (process_request h1 rid msg) \<Longrightarrow>
   process_request h1 rid msg = process_request h2 rid msg"
proof (cases "ticket_created (process_request h1 rid msg)")
  case True
  assume "h1 msg mod 10000 = h2 msg mod 10000 \<or> \<not> ticket_created (process_request h1 rid msg)"
  with True have "h1 msg mod 10000 = h2 msg mod 10000" by simp
  then have "create_ticket h1 (check_escalation_needed (generate_response (categorize_request
      (validate_request (initial_state rid msg))))) =
    create_ticket h2 (check_escalation_needed (generate_response (categorize_request
      (validate_request (initial_state rid msg)))))"
    by (intro create_ticket_hash) simp
  then show ?thesis by (simp add: process_request_cases)
next
  case False
  then have "has_error (validate_request (initial_state rid msg)) \<or>
     \<not> escalation_needed (generate_response (categorize_request (validate_request (initial_state rid msg))))"
    using ticket_created_iff [of h1 rid msg] by blast
  then show ?thesis by (auto simp add: process_request_cases)
qed

lemma process_request_labels_hash:
  "category (process_request h1 rid msg) = category (process_request h2 rid msg)"
  "priority (process_request h1 rid msg) = priority (process_request h2 rid msg)"
  "escalated (process_request h1 rid msg) = escalated (process_request h2 rid msg)"
  by (simp_all add: process_request_cases)

subsection \<open>Escalation\<close>

lemma stage_keeps_escalated:
  "n \<noteq> CheckEscalation \<Longrightarrow> escalated s \<Longrightarrow> escalated (stage h n s)"
  by (cases n) simp_all

lemma any_in_Cons: "any_in (w # ws) s \<longleftrightarrow> contains w s \<or> any_in ws s"
  by (simp add: any_in_def)

lemma contains_middle: "contains w (ps @ w @ ss)"
  using contains_iff by blast

lemma lower_manager: "lower ''I want a manager'' = ''i want a '' @ ''manager'' @ []"
  by code_simp

lemma overlong_has_keyword:
  "any_in [''manager'', ''supervisor'', ''human'']
     (lower (''I want a manager'' @ replicate 1000 CHR ''!''))"
proof -
  have "lower (''I want a manager'' @ replicate 1000 CHR ''!'') =
      ''i want a '' @ ''manager'' @ lower (replicate 1000 CHR ''!'')"
    by (simp only: lower_append lower_manager append_assoc append_Nil)
  then have "contains ''manager'' (lower (''I want a manager'' @ replicate 1000 CHR ''!''))"
    by (simp only: contains_middle)
  then show ?thesis by (simp only: any_in_Cons) simp
qed

lemma not_is_space_I: "\<not> is_space CHR ''I''"
  by code_simp

lemma overlong_rejected:
  "validate_request (initial_state rid (''I want a manager'' @ replicate 1000 CHR ''!'')) =
     (initial_state rid (''I want a manager'' @ replicate 1000 CHR ''!''))
       \<lparr>error_message := Some ''Message too long (max 1000 characters)''\<rparr>"
proof -
  have "strip (''I want a manager'' @ replicate 1000 CHR ''!'') \<noteq> []"
    using not_is_space_I by (auto simp add: strip_eq_Nil_iff)
  then show ?thesis
    by (simp add: validate_request_def Let_def)
qed

subsection \<open>The fallback of the Gemini workflows\<close>

lemma responses_hf_nonempty: "responses_hf c \<noteq> []"
  by (simp add: responses_hf_def)

lemma responses_simple_nonempty: "responses_simple c \<noteq> []"
  by (simp add: responses_simple_def)

lemma generate_response_hf_failure:
  "llm (llm_prompt_hf state) = Raised e \<or> llm (llm_prompt_hf state) = Parts [] \<Longrightarrow>
   generate_response_hf use_llm llm state =
     state\<lparr>response_hf := Some (get_fallback_response state)\<rparr>"
  by (auto simp add: generate_response_hf_def get_llm_response_def Let_def)

lemma check_escalation_response:
  "response_hf s = Some r \<Longrightarrow> r \<noteq> [] \<Longrightarrow>
   response_hf (check_escalation s) = Some r \<or>
   response_hf (check_escalation s) = Some (r @ escalation_note)"
  by (simp add: check_escalation_def Let_def)

lemma run_hf_failure:
  "llm (llm_prompt_hf (set_priority (categorize (new_WorkflowState_hf message)))) = Raised e \<or>
   llm (llm_prompt_hf (set_priority (categorize (new_WorkflowState_hf message)))) = Parts [] \<Longrightarrow>
   response_hf (run_hf use_llm llm message) =
     Some (get_fallback_response (set_priority (categorize (new_WorkflowState_hf message)))) \<or>
   response_hf (run_hf use_llm llm message) =
     Some (get_fallback_response (set_priority (categorize (new_WorkflowState_hf message)))
           @ escalation_note)"
proof -
  let ?s = "set_priority (categorize (new_WorkflowState_hf message))"
  assume "llm (llm_prompt_hf ?s) = Raised e \<or> llm (llm_prompt_hf ?s) = Parts []"
  then have g: "generate_response_hf use_llm llm ?s = ?s\<lparr>response_hf := Some (get_fallback_response ?s)\<rparr>"
    by (rule generate_response_hf_failure)
  have n: "get_fallback_response ?s \<noteq> []"
    by (simp add: get_fallback_response_def responses_hf_nonempty)
  have "response_hf (?s\<lparr>response_hf := Some (get_fallback_response ?s)\<rparr>) = Some (get_fallback_response ?s)"
    by simp
  from check_escalation_response [OF this n] show ?thesis
    by (simp add: run_hf_def g)
qed

lemma generate_response_simple_failure:
  "llm (llm_prompt_simple data) = Raised e \<or> llm (llm_prompt_simple data) = Parts [] \<Longrightarrow>
   generate_response_simple use_llm llm data =
     data(''response'' \<mapsto> responses_simple (data ''category''))"
  by (auto simp add: generate_response_simple_def llm_text_simple_def)

lemma run_workflow_failure:
  "llm (llm_prompt_simple (categorize_request_simple (validate_input [''message'' \<mapsto> message])))
     = Raised e \<or>
   llm (llm_prompt_simple (categorize_request_simple (validate_input [''message'' \<mapsto> message])))
     = Parts [] \<Longrightarrow>
   run_workflow use_llm llm message =
     responses_simple ((categorize_request_simple (validate_input [''message'' \<mapsto> message])) ''category'')"
proof -
  let ?d = "categorize_request_simple (validate_input [''message'' \<mapsto> message])"
  assume "llm (llm_prompt_simple ?d) = Raised e \<or> llm (llm_prompt_simple ?d) = Parts []"
  then have "generate_response_simple use_llm llm ?d = ?d(''response'' \<mapsto> responses_simple (?d ''category''))"
    by (rule generate_response_simple_failure)
  then show ?thesis
    by (simp add: run_workflow_def Let_def get_or_def)
qed

section \<open>Properties of the support workflow\<close>

text \<open>
  Claim C7. In every state of a run that starts from the default initial state (the
  initial state and the state after each stage the graph runs), \<open>ticket_created\<close>
  implies \<open>escalated\<close>; so it does in the state the run returns, on the error path as on
  the others, for the graph and for \<open>process_request\<close> alike.
\<close>

theorem ticket_implies_escalated:
  "(\<forall>s \<in> set (trace h rid msg). ticket_created s \<longrightarrow> escalated s) \<and>
   (ticket_created (invoke h (initial_state rid msg)) \<longrightarrow>
      escalated (invoke h (initial_state rid msg))) \<and>
   (ticket_created (process_request h rid msg) \<longrightarrow> escalated (process_request h rid msg))"
  by (simp add: invoke_initial process_request_last trace_shape Let_def)

theorem ticket_implies_escalated_witness:
  "last (trace (seeded_hash 0) ''REQ002'' ''This app is terrible! It keeps crashing!'')
     \<in> set (trace (seeded_hash 0) ''REQ002'' ''This app is terrible! It keeps crashing!'')
   \<and> ticket_created (last (trace (seeded_hash 0) ''REQ002'' ''This app is terrible! It keeps crashing!''))
   \<and> escalated (last (trace (seeded_hash 0) ''REQ002'' ''This app is terrible! It keeps crashing!''))"
proof -
  let ?t = "trace (seeded_hash 0) ''REQ002'' ''This app is terrible! It keeps crashing!''"
  have a: "last ?t \<in> set ?t" by (simp add: trace_def)
  have b: "ticket_created (last ?t)" by code_simp
  from ticket_implies_escalated [of "seeded_hash 0" "''REQ002''" "''This app is terrible! It keeps crashing!''"] a b
  show ?thesis by blast
qed

text \<open>
  Claim C1, as stated, at the error path: for the one-character message \<open>x\<close> two stages
  run, Validate and HandleError, and the final \<open>step_count\<close> is 1, not 2.
  \<open>validate_request\<close> returns before its increment when it rejects the message.
\<close>

theorem step_count_error_path_counterexample:
  "has_error (validate_request (initial_state ''REQ005'' ''x'')) \<and>
   run_from (seeded_hash 0) Validate (initial_state ''REQ005'' ''x'') =
     [validate_request (initial_state ''REQ005'' ''x''),
      handle_error (validate_request (initial_state ''REQ005'' ''x''))] \<and>
   step_count (validate_request (initial_state ''REQ005'' ''x'')) = 0 \<and>
   step_count (process_request (seeded_hash 0) ''REQ005'' ''x'') = 1 \<and>
   step_count (process_request (seeded_hash 0) ''REQ005'' ''x'') \<noteq> 2"
  by code_simp

text \<open>
  Claim C1, amended. From the default initial state the run executes 2 stages and ends
  with \<open>step_count\<close> 1 on the error path, executes 5 stages and ends with \<open>step_count\<close> 5
  on a clean run without a ticket, and executes 6 stages and ends with \<open>step_count\<close> 6
  when CreateTicket runs. Every stage other than Validate increments \<open>step_count\<close> by
  exactly one on every state; Validate, on a state with no error yet, increments it by
  one when it accepts the message and leaves it unchanged when it sets an error.
\<close>

theorem step_count_per_path:
  "(has_error (validate_request (initial_state rid msg)) \<longrightarrow>
      length (run_from h Validate (initial_state rid msg)) = 2 \<and>
      step_count (process_request h rid msg) = 1) \<and>
   (\<not> has_error (validate_request (initial_state rid msg)) \<and>
    \<not> ticket_created (process_request h rid msg) \<longrightarrow>
      length (run_from h Validate (initial_state rid msg)) = 5 \<and>
      step_count (process_request h rid msg) = 5) \<and>
   (\<not> has_error (validate_request (initial_state rid msg)) \<and>
    ticket_created (process_request h rid msg) \<longrightarrow>
      length (run_from h Validate (initial_state rid msg)) = 6 \<and>
      step_count (process_request h rid msg) = 6) \<and>
   (n \<noteq> Validate \<longrightarrow> step_count (stage h n s) = step_count s + 1) \<and>
   (error_message s = None \<longrightarrow>
      step_count (validate_request s) =
        (if has_error (validate_request s) then step_count s else step_count s + 1))"
proof -
  let ?v = "validate_request (initial_state rid msg)"
  have sv: "step_count ?v = (if has_error ?v then 0 else 1)"
    using validate_request_step_count [of "initial_state rid msg"] by simp
  have a: "has_error ?v \<longrightarrow>
      length (run_from h Validate (initial_state rid msg)) = 2 \<and>
      step_count (process_request h rid msg) = 1"
    using sv by (simp add: run_from_Validate process_request_def Let_def)
  have b: "\<not> has_error ?v \<and> \<not> ticket_created (process_request h rid msg) \<longrightarrow>
      length (run_from h Validate (initial_state rid msg)) = 5 \<and>
      step_count (process_request h rid msg) = 5"
    using sv by (simp add: run_from_Validate run_from_CheckEscalation run_from_CreateTicket
        process_request_def Let_def)
  have c: "\<not> has_error ?v \<and> ticket_created (process_request h rid msg) \<longrightarrow>
      length (run_from h Validate (initial_state rid msg)) = 6 \<and>
      step_count (process_request h rid msg) = 6"
    using sv by (simp add: run_from_Validate run_from_CheckEscalation run_from_CreateTicket
        process_request_def Let_def)
  show ?thesis using a b c stage_step_count validate_request_step_count by blast
qed

theorem step_count_per_path_witness:
  "has_error (validate_request (initial_state ''REQ005'' ''x'')) \<and>
   step_count (process_request (seeded_hash 0) ''REQ005'' ''x'') = 1 \<and>
   \<not> has_error (validate_request (initial_state ''REQ001'' ''I forgot my password and can't log in'')) \<and>
   \<not> ticket_created (process_request (seeded_hash 0) ''REQ001'' ''I forgot my password and can't log in'') \<and>
   step_count (process_request (seeded_hash 0) ''REQ001'' ''I forgot my password and can't log in'') = 5 \<and>
   \<not> has_error (validate_request (initial_state ''REQ002'' ''This app is terrible! It keeps crashing!'')) \<and>
   ticket_created (process_request (seeded_hash 0) ''REQ002'' ''This app is terrible! It keeps crashing!'') \<and>
   step_count (process_request (seeded_hash 0) ''REQ002'' ''This app is terrible! It keeps crashing!'') = 6 \<and>
   SendResponse \<noteq> Validate \<and>
   step_count (stage (seeded_hash 0) SendResponse (initial_state ''REQ001'' ''Hello'')) = 1 \<and>
   error_message (initial_state ''REQ001'' ''Hello'') = None \<and>
   step_count (validate_request (initial_state ''REQ001'' ''Hello'')) = 1"
proof -
  have e1: "has_error (validate_request (initial_state ''REQ005'' ''x''))" by code_simp
  have e2: "\<not> has_error (validate_request (initial_state ''REQ001'' ''I forgot my password and can't log in''))"
    by code_simp
  have t2: "\<not> ticket_created (process_request (seeded_hash 0) ''REQ001'' ''I forgot my password and can't log in'')"
    by code_simp
  have e3: "\<not> has_error (validate_request (initial_state ''REQ002'' ''This app is terrible! It keeps crashing!''))"
    by code_simp
  have t3: "ticket_created (process_request (seeded_hash 0) ''REQ002'' ''This app is terrible! It keeps crashing!'')"
    by code_simp
  have e4: "\<not> has_error (validate_request (initial_state ''REQ001'' ''Hello''))" by code_simp
  have n4: "SendResponse \<noteq> Validate" by simp
  have m4: "error_message (initial_state ''REQ001'' ''Hello'') = None" by simp
  show ?thesis
    using e1 e2 t2 e3 t3 e4 n4 m4
      step_count_per_path [of "''REQ005''" "''x''" "seeded_hash 0" SendResponse "initial_state ''REQ001'' ''Hello''"]
      step_count_per_path [of "''REQ001''" "''I forgot my password and can't log in''" "seeded_hash 0" SendResponse "initial_state ''REQ001'' ''Hello''"]
      step_count_per_path [of "''REQ002''" "''This app is terrible! It keeps crashing!''" "seeded_hash 0" SendResponse "initial_state ''REQ001'' ''Hello''"]
    by simp
qed

text \<open>
  Claim C2, as stated, at the input \<open>Hi\<close>: the message has 2 characters, which is not
  below the minimum, so no error is set, the run is not escalated and the response is the
  general template, not the apology.
\<close>

theorem Hi_passes_validation_counterexample:
  "length ''Hi'' = 2 \<and>
   error_message (process_request (seeded_hash 0) ''REQ004'' ''Hi'') = None \<and>
   \<not> escalated (process_request (seeded_hash 0) ''REQ004'' ''Hi'') \<and>
   response (process_request (seeded_hash 0) ''REQ004'' ''Hi'') =
     Some ''Thank you for contacting us. I'll make sure you get the help you need.''"
  by code_simp

text \<open>
  Claim C2, amended. For the input exactly \<open>Hi\<close> Validate sets no error and the run ends
  on the normal path with category general, priority low, the general template as
  response, \<open>escalated\<close> false and \<open>step_count\<close> 5. A message of one character that is not
  white space gets the error \<open>Message too short\<close>. Whenever Validate sets an error, the
  run goes through HandleError alone, the final response is the apology template
  embedding the error, and \<open>escalated\<close> is true. Validate sets an error, and changes
  nothing else, when the message is empty, consists of white space only, has fewer than
  2 characters or has more than 1000; otherwise it changes nothing but \<open>step_count\<close>.
\<close>

theorem validate_request_outcomes:
  "process_request h rid ''Hi'' =
     \<lparr> request_id = rid, user_message = ''Hi'', category = Some ''general'',
       priority = Some ''low'', response = Some (responses ''general''), escalated = False,
       ticket_created = False, error_message = None, step_count = 5 \<rparr> \<and>
   (length msg = 1 \<and> \<not> is_space (hd msg) \<longrightarrow>
      error_message (process_request h rid msg) = Some ''Message too short'') \<and>
   (has_error (validate_request (initial_state rid msg)) \<longrightarrow>
      process_request h rid msg = handle_error (validate_request (initial_state rid msg)) \<and>
      response (process_request h rid msg) =
        Some (apology (error_text (process_request h rid msg))) \<and>
      escalated (process_request h rid msg)) \<and>
   (user_message s = [] \<or> list_all is_space (user_message s) \<or> length (user_message s) < 2
      \<or> length (user_message s) > 1000 \<longrightarrow>
      has_error (validate_request s) \<and> step_count (validate_request s) = step_count s \<and>
      validate_request s = s\<lparr>error_message := error_message (validate_request s)\<rparr>) \<and>
   (\<not> (user_message s = [] \<or> list_all is_space (user_message s) \<or> length (user_message s) < 2
      \<or> length (user_message s) > 1000) \<longrightarrow>
      validate_request s = s\<lparr>step_count := step_count s + 1\<rparr>)"
proof -
  have short: "length msg = 1 \<and> \<not> is_space (hd msg) \<longrightarrow>
      error_message (process_request h rid msg) = Some ''Message too short''"
  proof
    assume a: "length msg = 1 \<and> \<not> is_space (hd msg)"
    then have v: "validate_request (initial_state rid msg) =
        (initial_state rid msg)\<lparr>error_message := Some ''Message too short''\<rparr>"
      using validate_request_too_short [of "initial_state rid msg"] by simp
    then have "has_error (validate_request (initial_state rid msg))"
      by (simp add: has_error_def)
    then show "error_message (process_request h rid msg) = Some ''Message too short''"
      using v by (simp add: error_path)
  qed
  have err: "has_error (validate_request (initial_state rid msg)) \<longrightarrow>
      process_request h rid msg = handle_error (validate_request (initial_state rid msg)) \<and>
      response (process_request h rid msg) =
        Some (apology (error_text (process_request h rid msg))) \<and>
      escalated (process_request h rid msg)"
    by (simp add: error_path error_text_def)
  show ?thesis
    using short err process_request_Hi [of h rid] validate_request_rejected [of s]
      validate_request_accepted [of s]
    by blast
qed

theorem validate_request_outcomes_witness:
  "length ''x'' = 1 \<and> \<not> is_space (hd ''x'') \<and>
   error_message (process_request (seeded_hash 0) ''REQ005'' ''x'') = Some ''Message too short'' \<and>
   has_error (validate_request (initial_state ''REQ005'' ''x'')) \<and>
   response (process_request (seeded_hash 0) ''REQ005'' ''x'') =
     Some (apology (error_text (process_request (seeded_hash 0) ''REQ005'' ''x''))) \<and>
   escalated (process_request (seeded_hash 0) ''REQ005'' ''x'') \<and>
   list_all is_space (user_message (initial_state ''REQ006'' ''  '')) \<and>
   has_error (validate_request (initial_state ''REQ006'' ''  '')) \<and>
   step_count (validate_request (initial_state ''REQ006'' ''  '')) = 0 \<and>
   \<not> list_all is_space (user_message (initial_state ''REQ004'' ''Hi'')) \<and>
   validate_request (initial_state ''REQ004'' ''Hi'') =
     (initial_state ''REQ004'' ''Hi'')\<lparr>step_count := 1\<rparr>"
proof -
  have a: "length ''x'' = 1 \<and> \<not> is_space (hd ''x'')" by code_simp
  have b: "has_error (validate_request (initial_state ''REQ005'' ''x''))" by code_simp
  have c: "list_all is_space (user_message (initial_state ''REQ006'' ''  ''))" by code_simp
  have d: "\<not> (user_message (initial_state ''REQ004'' ''Hi'') = [] \<or>
      list_all is_space (user_message (initial_state ''REQ004'' ''Hi'')) \<or>
      length (user_message (initial_state ''REQ004'' ''Hi'')) < 2 \<or>
      length (user_message (initial_state ''REQ004'' ''Hi'')) > 1000)" by code_simp
  show ?thesis
    using a b c d
      validate_request_outcomes [of "seeded_hash 0" "''REQ005''" "''x''" "initial_state ''REQ006'' ''  ''"]
      validate_request_outcomes [of "seeded_hash 0" "''REQ005''" "''x''" "initial_state ''REQ004'' ''Hi''"]
    by simp
qed

text \<open>
  Claim C3, as stated, at a message with an urgency keyword: \<open>urgent: I cannot login\<close>
  contains \<open>urgent\<close>, is categorised as authentication and keeps the priority medium.
\<close>

theorem urgency_keyword_counterexample:
  "any_in [''urgent'', ''asap'', ''critical''] (lower ''urgent: I cannot login'') \<and>
   \<not> has_error (validate_request (initial_state ''REQ009'' ''urgent: I cannot login'')) \<and>
   category (categorize_request (validate_request (initial_state ''REQ009'' ''urgent: I cannot login'')))
     = Some ''authentication'' \<and>
   priority (categorize_request (validate_request (initial_state ''REQ009'' ''urgent: I cannot login'')))
     = Some ''medium'' \<and>
   priority (process_request (seeded_hash 0) ''REQ009'' ''urgent: I cannot login'') \<noteq> Some ''high''"
  by code_simp

text \<open>
  Claim C3, amended. Categorize always sets one of the five categories and sets the
  priority that the fixed mapping gives for that category (complaint to urgent, technical
  and billing to high, authentication to medium, general to low); no keyword overrides
  it. The same holds of the category and priority in the final state of every run on a
  valid input.
\<close>

theorem categorize_request_priority:
  "(case category (categorize_request s) of
      None \<Rightarrow> False
    | Some c \<Rightarrow>
        c \<in> set [''authentication'', ''billing'', ''technical'', ''complaint'', ''general''] \<and>
        priority (categorize_request s) = priority_table c) \<and>
   (\<not> has_error (validate_request (initial_state rid msg)) \<longrightarrow>
      (case category (process_request h rid msg) of
         None \<Rightarrow> False
       | Some c \<Rightarrow> priority (process_request h rid msg) = priority_table c))"
proof -
  have "\<not> has_error (validate_request (initial_state rid msg)) \<longrightarrow>
      (case category (process_request h rid msg) of
         None \<Rightarrow> False
       | Some c \<Rightarrow> priority (process_request h rid msg) = priority_table c)"
    using categorize_request_table [of "validate_request (initial_state rid msg)"]
    by (auto simp add: normal_path_labels split: option.splits)
  then show ?thesis using categorize_request_table [of s] by blast
qed

theorem categorize_request_priority_witness:
  "\<not> has_error (validate_request (initial_state ''REQ009'' ''urgent: I cannot login'')) \<and>
   category (process_request (seeded_hash 0) ''REQ009'' ''urgent: I cannot login'')
     = Some ''authentication'' \<and>
   priority (process_request (seeded_hash 0) ''REQ009'' ''urgent: I cannot login'')
     = priority_table ''authentication''"
proof -
  have a: "\<not> has_error (validate_request (initial_state ''REQ009'' ''urgent: I cannot login''))"
    by code_simp
  have b: "category (process_request (seeded_hash 0) ''REQ009'' ''urgent: I cannot login'')
     = Some ''authentication''" by code_simp
  show ?thesis
    using a b categorize_request_priority [of "initial_state ''REQ009'' ''urgent: I cannot login''"
        "''REQ009''" "''urgent: I cannot login''" "seeded_hash 0"]
    by simp
qed

text \<open>
  Claim C10. For every message whose stripped length is zero (the empty string and any
  message of white space only), \<open>validate_request\<close> sets the error to
  \<open>Message is empty\<close> and changes nothing else, \<open>step_count\<close> included; \<open>has_error\<close> then
  holds, so the graph goes from Validate to HandleError and ends there, and
  \<open>process_request\<close> returns what \<open>handle_error\<close> returns.
\<close>

theorem whitespace_only_rejected:
  "length (strip (user_message s)) = 0 \<Longrightarrow>
   validate_request s = s\<lparr>error_message := Some ''Message is empty''\<rparr> \<and>
   step_count (validate_request s) = step_count s \<and>
   has_error (validate_request s) \<and>
   next_node Validate (validate_request s) = Some HandleError \<and>
   run_from h Validate s = [validate_request s, handle_error (validate_request s)] \<and>
   (s = initial_state rid (user_message s) \<longrightarrow>
      process_request h rid (user_message s) = handle_error (validate_request s))"
proof -
  assume a: "length (strip (user_message s)) = 0"
  then have v: "validate_request s = s\<lparr>error_message := Some ''Message is empty''\<rparr>"
    by (simp add: validate_request_def Let_def)
  then have e: "has_error (validate_request s)" by (simp add: has_error_def)
  from v have st: "step_count (validate_request s) = step_count s" by simp
  from e have r: "run_from h Validate s = [validate_request s, handle_error (validate_request s)]"
    by (simp add: run_from_Validate Let_def)
  from e have p: "s = initial_state rid (user_message s) \<longrightarrow>
      process_request h rid (user_message s) = handle_error (validate_request s)"
    using error_path [of rid "user_message s" h] by auto
  from v e st r p show ?thesis by simp
qed

theorem whitespace_only_rejected_witness:
  "length (strip (user_message (initial_state ''REQ006'' [CHR '' '', CHR 0x09, CHR 0x0A]))) = 0 \<and>
   error_message (validate_request (initial_state ''REQ006'' [CHR '' '', CHR 0x09, CHR 0x0A]))
     = Some ''Message is empty'' \<and>
   step_count (validate_request (initial_state ''REQ006'' [CHR '' '', CHR 0x09, CHR 0x0A])) = 0 \<and>
   process_request (seeded_hash 0) ''REQ006'' [CHR '' '', CHR 0x09, CHR 0x0A] =
     handle_error (validate_request (initial_state ''REQ006'' [CHR '' '', CHR 0x09, CHR 0x0A]))"
proof -
  have a: "length (strip (user_message (initial_state ''REQ006'' [CHR '' '', CHR 0x09, CHR 0x0A]))) = 0"
    by code_simp
  show ?thesis
    using a whitespace_only_rejected [OF a, of "seeded_hash 0" "''REQ006''"]
    by simp
qed

text \<open>
  Claim C4, as stated, at two escalated runs with the same \<open>request_id\<close> and different
  messages: under the sample hash with seed 0 the run on \<open>I need a manager\<close> embeds
  \<open>TICKET-8539\<close> and the run on \<open>I need a human\<close> embeds \<open>TICKET-6715\<close>.
\<close>

theorem ticket_id_from_message_counterexample:
  "ticket_created (process_request (seeded_hash 0) ''REQ001'' ''I need a manager'') \<and>
   ticket_created (process_request (seeded_hash 0) ''REQ001'' ''I need a human'') \<and>
   response (process_request (seeded_hash 0) ''REQ001'' ''I need a manager'') =
     Some (responses ''general'' @ ticket_notice ''TICKET-8539'') \<and>
   response (process_request (seeded_hash 0) ''REQ001'' ''I need a human'') =
     Some (responses ''general'' @ ticket_notice ''TICKET-6715'') \<and>
   ticket_id (seeded_hash 0) (process_request (seeded_hash 0) ''REQ001'' ''I need a manager'') \<noteq>
   ticket_id (seeded_hash 0) (process_request (seeded_hash 0) ''REQ001'' ''I need a human'')"
  by code_simp

text \<open>
  Claim C4, amended. CreateTicket derives the ticket identifier appended to the response
  from the hash of the message, as \<open>TICKET-\<close> followed by that hash modulo 10000 in
  decimal, and not from \<open>request_id\<close>: for any two runs under the same hash function
  with the same message, whatever their \<open>request_id\<close>s, when one creates a ticket so does
  the other, and the embedded ticket identifier and the whole response are the same.
\<close>

theorem ticket_id_from_message:
  "ticket_created (process_request h rid msg) \<Longrightarrow>
   ticket_created (process_request h rid' msg) \<and>
   ticket_id h (process_request h rid msg) = ''TICKET-'' @ str_int (h msg mod 10000) \<and>
   ticket_id h (process_request h rid' msg) = ticket_id h (process_request h rid msg) \<and>
   response (process_request h rid msg) =
     Some (responses (category_or_general (process_request h rid msg)) @
       ticket_notice (ticket_id h (process_request h rid msg))) \<and>
   response (process_request h rid' msg) = response (process_request h rid msg)"
proof -
  assume a: "ticket_created (process_request h rid msg)"
  have r: "process_request h rid' msg = (process_request h rid msg)\<lparr>request_id := rid'\<rparr>"
    by (rule process_request_request_id)
  have u: "user_message (process_request h rid msg) = msg"
    by (simp add: process_request_cases)
  have t: "ticket_id h (process_request h rid msg) = ''TICKET-'' @ str_int (h msg mod 10000)"
    by (simp add: ticket_id_def u)
  have t': "ticket_id h (process_request h rid' msg) = ticket_id h (process_request h rid msg)"
    by (simp add: ticket_id_def r)
  have p: "response (process_request h rid msg) =
     Some (responses (category_or_general (process_request h rid msg)) @
       ticket_notice (ticket_id h (process_request h rid msg)))"
    using process_request_ticket_response [OF a] by (simp only: t)
  from a r have a': "ticket_created (process_request h rid' msg)" by simp
  from r have p': "response (process_request h rid' msg) = response (process_request h rid msg)"
    by simp
  from a' t t' p p' show ?thesis by blast
qed

theorem ticket_id_from_message_witness:
  "ticket_created (process_request (seeded_hash 0) ''REQ001'' ''I need a manager'') \<and>
   ticket_created (process_request (seeded_hash 0) ''REQ777'' ''I need a manager'') \<and>
   ticket_id (seeded_hash 0) (process_request (seeded_hash 0) ''REQ777'' ''I need a manager'') =
     ''TICKET-8539'' \<and>
   response (process_request (seeded_hash 0) ''REQ777'' ''I need a manager'') =
   response (process_request (seeded_hash 0) ''REQ001'' ''I need a manager'')"
proof -
  have a: "ticket_created (process_request (seeded_hash 0) ''REQ001'' ''I need a manager'')"
    by code_simp
  have b: "''TICKET-'' @ str_int (seeded_hash 0 ''I need a manager'' mod 10000) = ''TICKET-8539''"
    by code_simp
  show ?thesis
    using a b ticket_id_from_message [OF a, of "''REQ777''"] by simp
qed

text \<open>
  Claim C9, as stated, at two runs on the same \<open>request_id\<close> and message in two
  interpreters, whose string hashes differ (the sample hash with seeds 0 and 1): the
  responses embed \<open>TICKET-6715\<close> and \<open>TICKET-7036\<close> and are not equal.
\<close>

theorem response_depends_on_hash_counterexample:
  "response (process_request (seeded_hash 0) ''REQ001'' ''I need a human'') =
     Some (responses ''general'' @ ticket_notice ''TICKET-6715'') \<and>
   response (process_request (seeded_hash 1) ''REQ001'' ''I need a human'') =
     Some (responses ''general'' @ ticket_notice ''TICKET-7036'') \<and>
   response (process_request (seeded_hash 0) ''REQ001'' ''I need a human'') \<noteq>
   response (process_request (seeded_hash 1) ''REQ001'' ''I need a human'')"
  by code_simp

text \<open>
  Claim C9, amended. Two runs on the same \<open>request_id\<close> and message, under any two hash
  functions, end with the same category, priority and \<open>escalated\<close>; their responses are
  the same when the two hash functions agree on the message modulo 10000 (as they do
  within one interpreter) or when no ticket is created.
\<close>

theorem rerun_same_outcome:
  "category (process_request h1 rid msg) = category (process_request h2 rid msg) \<and>
   priority (process_request h1 rid msg) = priority (process_request h2 rid msg) \<and>
   escalated (process_request h1 rid msg) = escalated (process_request h2 rid msg) \<and>
   (h1 msg mod 10000 = h2 msg mod 10000 \<or> \<not> ticket_created (process_request h1 rid msg) \<longrightarrow>
      response (process_request h1 rid msg) = response (process_request h2 rid msg))"
proof -
  have "h1 msg mod 10000 = h2 msg mod 10000 \<or> \<not> ticket_created (process_request h1 rid msg) \<longrightarrow>
      response (process_request h1 rid msg) = response (process_request h2 rid msg)"
    using process_request_hash [of h1 msg h2 rid] by auto
  then show ?thesis
    using process_request_labels_hash [of h1 rid msg h2] by blast
qed

theorem rerun_same_outcome_witness:
  "\<not> ticket_created (process_request (seeded_hash 0) ''REQ001'' ''I forgot my password'') \<and>
   response (process_request (seeded_hash 0) ''REQ001'' ''I forgot my password'') =
   response (process_request (seeded_hash 1) ''REQ001'' ''I forgot my password'') \<and>
   seeded_hash 0 ''I need a human'' mod 10000 = seeded_hash 10000 ''I need a human'' mod 10000 \<and>
   response (process_request (seeded_hash 0) ''REQ001'' ''I need a human'') =
   response (process_request (seeded_hash 10000) ''REQ001'' ''I need a human'')"
proof -
  have a: "\<not> ticket_created (process_request (seeded_hash 0) ''REQ001'' ''I forgot my password'')"
    by code_simp
  have b: "seeded_hash 0 ''I need a human'' mod 10000 = seeded_hash 10000 ''I need a human'' mod 10000"
    by code_simp
  show ?thesis
    using a b rerun_same_outcome [of "seeded_hash 0" "''REQ001''" "''I forgot my password''" "seeded_hash 1"]
      rerun_same_outcome [of "seeded_hash 0" "''REQ001''" "''I need a human''" "seeded_hash 10000"]
    by simp
qed

text \<open>
  Claim C5, as stated, at CheckEscalation: on a state with \<open>escalated\<close> true, category
  general, priority low and the message \<open>hello there\<close>, \<open>check_escalation_needed\<close>
  assigns the computed condition and \<open>escalated\<close> becomes false.
\<close>

theorem check_escalation_resets_counterexample:
  "escalated ((initial_state ''REQ007'' ''hello there'')
      \<lparr>category := Some ''general'', priority := Some ''low'', escalated := True\<rparr>) \<and>
   \<not> escalated (check_escalation_needed ((initial_state ''REQ007'' ''hello there'')
      \<lparr>category := Some ''general'', priority := Some ''low'', escalated := True\<rparr>))"
  by code_simp

text \<open>
  Claim C5, amended. Along every run from the default initial state the \<open>escalated\<close>
  flag, once true, stays true in every later state of the run. On any state every stage
  other than CheckEscalation leaves a true \<open>escalated\<close> true; CheckEscalation assigns
  the flag the escalation condition it computes, whatever the flag was.
\<close>

theorem escalated_monotonic_in_run:
  "once_true (map escalated (trace h rid msg)) \<and>
   (n \<noteq> CheckEscalation \<and> escalated s \<longrightarrow> escalated (stage h n s)) \<and>
   escalated (stage h CheckEscalation s) = escalation_needed s"
proof -
  have "once_true (map escalated (trace h rid msg))"
    by (simp add: trace_shape Let_def)
  then show ?thesis using stage_keeps_escalated [of n s h] by simp
qed

theorem escalated_monotonic_in_run_witness:
  "CreateTicket \<noteq> CheckEscalation \<and>
   escalated (check_escalation_needed (generate_response (categorize_request (validate_request
      (initial_state ''REQ001'' ''I need a manager''))))) \<and>
   escalated (stage (seeded_hash 0) CreateTicket (check_escalation_needed (generate_response
      (categorize_request (validate_request (initial_state ''REQ001'' ''I need a manager'')))))) \<and>
   once_true (map escalated (trace (seeded_hash 0) ''REQ001'' ''I need a manager''))"
proof -
  have a: "CreateTicket \<noteq> CheckEscalation" by simp
  have b: "escalated (check_escalation_needed (generate_response (categorize_request
      (validate_request (initial_state ''REQ001'' ''I need a manager'')))))" by code_simp
  show ?thesis
    using a b escalated_monotonic_in_run [of "seeded_hash 0" "''REQ001''" "''I need a manager''"
        CreateTicket "check_escalation_needed (generate_response (categorize_request
      (validate_request (initial_state ''REQ001'' ''I need a manager''))))"]
    by blast
qed

text \<open>
  Claim C6, as stated, at an input with an escalation keyword: the message
  \<open>I want a manager\<close> followed by 1000 exclamation marks contains \<open>manager\<close> and has 1016
  characters, so validation rejects it and the final state has no ticket.
\<close>

theorem overlong_keyword_counterexample:
  "any_in [''manager'', ''supervisor'', ''human'']
     (lower (''I want a manager'' @ replicate 1000 CHR ''!'')) \<and>
   length (''I want a manager'' @ replicate 1000 CHR ''!'') = 1016 \<and>
   error_message (process_request (seeded_hash 0) ''REQ008''
     (''I want a manager'' @ replicate 1000 CHR ''!'')) =
     Some ''Message too long (max 1000 characters)'' \<and>
   ticket_created (process_request (seeded_hash 0) ''REQ008''
     (''I want a manager'' @ replicate 1000 CHR ''!'')) = False"
proof -
  have e: "has_error (validate_request (initial_state ''REQ008''
      (''I want a manager'' @ replicate 1000 CHR ''!'')))"
    by (simp only: overlong_rejected) (simp add: has_error_def)
  have p: "process_request (seeded_hash 0) ''REQ008'' (''I want a manager'' @ replicate 1000 CHR ''!'') =
     handle_error (validate_request (initial_state ''REQ008''
      (''I want a manager'' @ replicate 1000 CHR ''!'')))"
    using e by (rule error_path)
  have m: "error_message (process_request (seeded_hash 0) ''REQ008''
     (''I want a manager'' @ replicate 1000 CHR ''!'')) =
     Some ''Message too long (max 1000 characters)''"
    by (simp only: p overlong_rejected) simp
  have t: "ticket_created (process_request (seeded_hash 0) ''REQ008''
     (''I want a manager'' @ replicate 1000 CHR ''!'')) = False"
    by (simp only: p) simp
  have l: "length (''I want a manager'' @ replicate 1000 CHR ''!'') = 1016" by simp
  from overlong_has_keyword l m t show ?thesis by blast
qed

text \<open>
  Claim C6, amended. For every input that passes validation and contains an escalation
  keyword, or whose category is complaint or technical, or whose priority is high or
  urgent, the final state has \<open>escalated\<close> and \<open>ticket_created\<close> true. For an input
  that validation rejects the final state has \<open>escalated\<close> true and \<open>ticket_created\<close>
  false.
\<close>

theorem escalation_creates_ticket:
  "(\<not> has_error (validate_request (initial_state rid msg)) \<and>
    (any_in [''manager'', ''supervisor'', ''human''] (lower msg) \<or>
     category (process_request h rid msg) \<in> set [Some ''complaint'', Some ''technical''] \<or>
     priority (process_request h rid msg) \<in> set [Some ''urgent'', Some ''high''])
    \<longrightarrow> escalated (process_request h rid msg) \<and> ticket_created (process_request h rid msg)) \<and>
   (has_error (validate_request (initial_state rid msg))
    \<longrightarrow> escalated (process_request h rid msg) \<and> \<not> ticket_created (process_request h rid msg))"
proof -
  let ?g = "generate_response (categorize_request (validate_request (initial_state rid msg)))"
  have a: "has_error (validate_request (initial_state rid msg))
    \<longrightarrow> escalated (process_request h rid msg) \<and> \<not> ticket_created (process_request h rid msg)"
    by (simp add: process_request_cases)
  have b: "\<not> has_error (validate_request (initial_state rid msg)) \<and>
    (any_in [''manager'', ''supervisor'', ''human''] (lower msg) \<or>
     category (process_request h rid msg) \<in> set [Some ''complaint'', Some ''technical''] \<or>
     priority (process_request h rid msg) \<in> set [Some ''urgent'', Some ''high''])
    \<longrightarrow> escalated (process_request h rid msg) \<and> ticket_created (process_request h rid msg)"
  proof
    assume h: "\<not> has_error (validate_request (initial_state rid msg)) \<and>
      (any_in [''manager'', ''supervisor'', ''human''] (lower msg) \<or>
       category (process_request h rid msg) \<in> set [Some ''complaint'', Some ''technical''] \<or>
       priority (process_request h rid msg) \<in> set [Some ''urgent'', Some ''high''])"
    then have ne: "\<not> has_error (validate_request (initial_state rid msg))" by blast
    have c: "category (process_request h rid msg) = category ?g"
      and p: "priority (process_request h rid msg) = priority ?g"
      using ne by (simp_all add: process_request_cases)
    have u: "user_message ?g = msg" by simp
    from h c p u have "escalation_needed ?g"
      unfolding escalation_needed_def by metis
    with ne show "escalated (process_request h rid msg) \<and> ticket_created (process_request h rid msg)"
      by (simp add: process_request_cases)
  qed
  from a b show ?thesis by blast
qed

theorem escalation_creates_ticket_witness:
  "\<not> has_error (validate_request (initial_state ''REQ001'' ''I need a manager'')) \<and>
   any_in [''manager'', ''supervisor'', ''human''] (lower ''I need a manager'') \<and>
   escalated (process_request (seeded_hash 0) ''REQ001'' ''I need a manager'') \<and>
   ticket_created (process_request (seeded_hash 0) ''REQ001'' ''I need a manager'') \<and>
   has_error (validate_request (initial_state ''REQ005'' ''x'')) \<and>
   escalated (process_request (seeded_hash 0) ''REQ005'' ''x'') \<and>
   \<not> ticket_created (process_request (seeded_hash 0) ''REQ005'' ''x'')"
proof -
  have a: "\<not> has_error (validate_request (initial_state ''REQ001'' ''I need a manager''))"
    by code_simp
  have b: "any_in [''manager'', ''supervisor'', ''human''] (lower ''I need a manager'')"
    by code_simp
  have c: "has_error (validate_request (initial_state ''REQ005'' ''x''))" by code_simp
  show ?thesis
    using a b c escalation_creates_ticket [of "''REQ001''" "''I need a manager''" "seeded_hash 0"]
      escalation_creates_ticket [of "''REQ005''" "''x''" "seeded_hash 0"]
    by blast
qed

section \<open>Properties of the Gemini workflows\<close>

text \<open>
  Claim C8. When the exchange with the generation collaborator fails (an exception at any
  step of it, or a reply with no parts), \<open>generate_response\<close> of either workflow returns
  normally with the response set to the template the category selects, which is not
  empty; so \<open>GeminiWorkflow.run\<close> ends with that template, possibly followed by the
  escalation note, and \<open>WorkflowAgent.run_workflow\<close> returns that template.
\<close>

theorem generation_failure_falls_back:
  "(llm (llm_prompt_hf state) = Raised e \<or> llm (llm_prompt_hf state) = Parts [] \<longrightarrow>
      generate_response_hf True llm state =
        state\<lparr>response_hf := Some (get_fallback_response state)\<rparr> \<and>
      get_fallback_response state \<noteq> []) \<and>
   (llm (llm_prompt_hf (set_priority (categorize (new_WorkflowState_hf message)))) = Raised e \<or>
    llm (llm_prompt_hf (set_priority (categorize (new_WorkflowState_hf message)))) = Parts [] \<longrightarrow>
      (case response_hf (run_hf True llm message) of
         None \<Rightarrow> False
       | Some r \<Rightarrow>
           r \<noteq> [] \<and>
           (r = get_fallback_response (set_priority (categorize (new_WorkflowState_hf message))) \<or>
            r = get_fallback_response (set_priority (categorize (new_WorkflowState_hf message)))
                @ escalation_note))) \<and>
   (llm (llm_prompt_simple data) = Raised e \<or> llm (llm_prompt_simple data) = Parts [] \<longrightarrow>
      generate_response_simple True llm data =
        data(''response'' \<mapsto> responses_simple (data ''category'')) \<and>
      responses_simple (data ''category'') \<noteq> []) \<and>
   (llm (llm_prompt_simple (categorize_request_simple (validate_input [''message'' \<mapsto> message])))
      = Raised e \<or>
    llm (llm_prompt_simple (categorize_request_simple (validate_input [''message'' \<mapsto> message])))
      = Parts [] \<longrightarrow>
      run_workflow True llm message =
        responses_simple
          ((categorize_request_simple (validate_input [''message'' \<mapsto> message])) ''category'') \<and>
      run_workflow True llm message \<noteq> [])"
proof -
  let ?s = "set_priority (categorize (new_WorkflowState_hf message))"
  let ?d = "categorize_request_simple (validate_input [''message'' \<mapsto> message])"
  have a: "llm (llm_prompt_hf state) = Raised e \<or> llm (llm_prompt_hf state) = Parts [] \<longrightarrow>
      generate_response_hf True llm state =
        state\<lparr>response_hf := Some (get_fallback_response state)\<rparr> \<and>
      get_fallback_response state \<noteq> []"
    using generate_response_hf_failure [of llm state e True]
    by (simp add: get_fallback_response_def responses_hf_nonempty)
  have n: "get_fallback_response ?s \<noteq> []"
    by (simp add: get_fallback_response_def responses_hf_nonempty)
  have b: "llm (llm_prompt_hf ?s) = Raised e \<or> llm (llm_prompt_hf ?s) = Parts [] \<longrightarrow>
      (case response_hf (run_hf True llm message) of
         None \<Rightarrow> False
       | Some r \<Rightarrow> r \<noteq> [] \<and> (r = get_fallback_response ?s \<or>
            r = get_fallback_response ?s @ escalation_note))"
    using run_hf_failure [of llm message e True] n by auto
  have c: "llm (llm_prompt_simple data) = Raised e \<or> llm (llm_prompt_simple data) = Parts [] \<longrightarrow>
      generate_response_simple True llm data =
        data(''response'' \<mapsto> responses_simple (data ''category'')) \<and>
      responses_simple (data ''category'') \<noteq> []"
    using generate_response_simple_failure [of llm data e True]
    by (simp add: responses_simple_nonempty)
  have d: "llm (llm_prompt_simple ?d) = Raised e \<or> llm (llm_prompt_simple ?d) = Parts [] \<longrightarrow>
      run_workflow True llm message = responses_simple (?d ''category'') \<and>
      run_workflow True llm message \<noteq> []"
    using run_workflow_failure [of llm message e True]
    by (auto simp add: responses_simple_nonempty)
  from a b c d show ?thesis by blast
qed

theorem generation_failure_falls_back_witness:
  "llm_down (llm_prompt_hf (set_priority (categorize
      (new_WorkflowState_hf ''Why was I charged twice on my bill?'')))) = Raised ''Connection refused'' \<and>
   response_hf (run_hf True llm_down ''Why was I charged twice on my bill?'') =
     Some ''For billing questions, contact billing@company.com or check your account settings.'' \<and>
   llm_down (llm_prompt_simple (categorize_request_simple
      (validate_input [''message'' \<mapsto> ''I forgot my password'']))) = Raised ''Connection refused'' \<and>
   run_workflow True llm_down ''I forgot my password'' = ''Reset your password on the login page''"
proof -
  have a: "llm_down (llm_prompt_hf (set_priority (categorize
      (new_WorkflowState_hf ''Why was I charged twice on my bill?'')))) = Raised ''Connection refused''"
    by (simp add: llm_down_def)
  have b: "llm_down (llm_prompt_simple (categorize_request_simple
      (validate_input [''message'' \<mapsto> ''I forgot my password'']))) = Raised ''Connection refused''"
    by (simp add: llm_down_def)
  have c: "get_fallback_response (set_priority (categorize
      (new_WorkflowState_hf ''Why was I charged twice on my bill?''))) =
     ''For billing questions, contact billing@company.com or check your account settings.''"
    by code_simp
  have c': "response_hf (run_hf True llm_down ''Why was I charged twice on my bill?'') \<noteq>
     Some (get_fallback_response (set_priority (categorize
      (new_WorkflowState_hf ''Why was I charged twice on my bill?''))) @ escalation_note)"
    by code_simp
  have d: "responses_simple ((categorize_request_simple
      (validate_input [''message'' \<mapsto> ''I forgot my password''])) ''category'') =
     ''Reset your password on the login page''"
    by code_simp
  show ?thesis
    using a b c c' d
      generation_failure_falls_back [of llm_down _ "''Connection refused''"
        "''Why was I charged twice on my bill?''"]
      generation_failure_falls_back [of llm_down _ "''Connection refused''"
        "''I forgot my password''"]
    by (auto split: option.splits)
qed

end
